theory Spec2Isabelle
  imports Main "HOL-Library.Sublist" "HOL-Library.AList"
begin

section \<open>JavaScript values\<close>

text \<open>
  The server (\<^verbatim>\<open>src/server.js\<close>) handles JSON values only: the objects it builds itself
  and the results of \<^verbatim>\<open>JSON.parse\<close>. An object is the list of its own properties in
  insertion order. Numbers are restricted to integers: the only numbers the server computes
  are list lengths, and a fractional number of a model reply is outside the embedding.
  A property that is absent reads as \<^verbatim>\<open>undefined\<close>, modelled by \<open>None\<close>. A string is
  a list of characters: the server compares characters with ASCII literals and counts
  them, and does nothing else that depends on what a character is.
\<close>

datatype json =
    JNull
  | JBool bool
  | JNum int
  | JStr string
  | JArr "json list"
  | JObj "(string \<times> json) list"

text \<open>
  Exceptions: \<open>Error msg\<close> is \<^verbatim>\<open>new Error(msg)\<close> (also what the model gateway throws),
  \<open>TypeError msg\<close> is raised by the runtime itself.
\<close>

datatype error = Error string | TypeError string

fun error_message :: "error \<Rightarrow> string" where
  "error_message (Error m) = m"
| "error_message (TypeError m) = m"

text \<open>
  \<^verbatim>\<open>v.k\<close> for a value \<open>v\<close> that is neither \<^verbatim>\<open>null\<close> nor \<^verbatim>\<open>undefined\<close> and a key
  \<open>k\<close> that no prototype defines (\<^verbatim>\<open>tasks\<close>, \<^verbatim>\<open>priority\<close>, \<^verbatim>\<open>assignedTo\<close>, the
  counters): the own property of an object, \<^verbatim>\<open>undefined\<close> on every other value.
\<close>

fun get_prop :: "json \<Rightarrow> string \<Rightarrow> json option" where
  "get_prop (JObj kvs) k = map_of kvs k"
| "get_prop _ k = None"

text \<open>
  \<^verbatim>\<open>o.k = v\<close> on a plain object: an existing property keeps its place and takes the new
  value, a new one is appended.
\<close>

fun assign :: "json \<Rightarrow> string \<Rightarrow> json \<Rightarrow> json" where
  "assign (JObj kvs) k v = JObj (AList.update k v kvs)"
| "assign d k v = d"

text \<open>Truthiness (\<^verbatim>\<open>!x\<close>, \<^verbatim>\<open>x && y\<close>) of a value that may be \<^verbatim>\<open>undefined\<close>.\<close>

fun truthy :: "json option \<Rightarrow> bool" where
  "truthy None = False"
| "truthy (Some JNull) = False"
| "truthy (Some (JBool b)) = b"
| "truthy (Some (JNum n)) = (n \<noteq> 0)"
| "truthy (Some (JStr s)) = (s \<noteq> [])"
| "truthy (Some (JArr xs)) = True"
| "truthy (Some (JObj kvs)) = True"

subsection \<open>Numbers as text\<close>

text \<open>
  \<^verbatim>\<open>Number.prototype.toString\<close> on an integer below \<open>2^53\<close> in absolute value, where
  a JavaScript number is the integer itself and prints as its decimal digits, most
  significant first. (From \<open>2^53\<close> upward JavaScript prints the shortest digits that read
  back as the same number, and an exponent from \<open>10^21\<close>; such numbers are outside the
  embedding. A millisecond clock stays far below \<open>2^53\<close>.)
\<close>

definition digit :: "nat \<Rightarrow> char" where
  "digit d = ''0123456789'' ! d"

function decimal :: "nat \<Rightarrow> string" where
  "decimal n = (if n < 10 then [digit n] else decimal (n div 10) @ [digit (n mod 10)])"
  by pat_completeness auto
termination
  by (relation "measure id") auto

declare decimal.simps [simp del]

definition Number_toString :: "int \<Rightarrow> string" where
  "Number_toString i = (if i < 0 then CHR ''-'' # decimal (nat (- i)) else decimal (nat i))"

subsection \<open>Conversion to a string\<close>

text \<open>
  \<^verbatim>\<open>ToString\<close>, as a template literal \<^verbatim>\<open>${v}\<close> and \<^verbatim>\<open>'' + v\<close> apply it to a JSON value.
  A plain object prints as \<^verbatim>\<open>[object Object]\<close> through \<^verbatim>\<open>Object.prototype.toString\<close>;
  when the object has an own property \<^verbatim>\<open>toString\<close> (never callable in a JSON value) no
  method yields a primitive and the conversion throws. An array joins the conversions of
  its elements with commas, \<^verbatim>\<open>null\<close> elements printing as the empty string.
\<close>

fun ToString :: "json \<Rightarrow> error + string"
  and join :: "json list \<Rightarrow> error + string" where
  "ToString JNull = Inr ''null''"
| "ToString (JBool b) = Inr (if b then ''true'' else ''false'')"
| "ToString (JNum n) = Inr (Number_toString n)"
| "ToString (JStr s) = Inr s"
| "ToString (JArr xs) = join xs"
| "ToString (JObj kvs) =
     (if map_of kvs ''toString'' = None then Inr ''[object Object]''
      else Inl (TypeError ''Cannot convert object to primitive value''))"
| "join [] = Inr []"
| "join (x # xs) =
     (case (if x = JNull then Inr [] else ToString x) of
        Inl e \<Rightarrow> Inl e
      | Inr s \<Rightarrow>
          (if xs = [] then Inr s
           else (case join xs of Inl e \<Rightarrow> Inl e | Inr r \<Rightarrow> Inr (s @ '','' @ r))))"

section \<open>The response parser\<close>

text \<open>
  \<^verbatim>\<open>text.replace(/```json\n?|\n?```/g, '')\<close>. At each position the regular expression
  tries its first alternative (the marker \<^verbatim>\<open>```json\<close> and a newline if one follows),
  then its second (a newline if \<^verbatim>\<open>```\<close> follows it, then \<^verbatim>\<open>```\<close>). \<open>match_fence\<close> is the
  length of the match at the start of its argument. The flag \<^verbatim>\<open>g\<close> replaces every match:
  the scan goes on behind a match, and a character where nothing matches is kept.
\<close>

definition match_fence :: "string \<Rightarrow> nat option" where
  "match_fence s =
     (if prefix ''```json\<newline>'' s then Some 8
      else if prefix ''```json'' s then Some 7
      else if prefix ''\<newline>```'' s then Some 4
      else if prefix ''```'' s then Some 3
      else None)"

function strip_fences :: "string \<Rightarrow> string" where
  "strip_fences s =
     (case match_fence s of
        Some n \<Rightarrow> strip_fences (drop n s)
      | None \<Rightarrow> (case s of [] \<Rightarrow> [] | c # cs \<Rightarrow> c # strip_fences cs))"
  by pat_completeness auto
termination
  by (relation "measure length")
    (auto simp: match_fence_def split: if_splits dest: prefix_length_le)

declare strip_fences.simps [simp del]

text \<open>
  \<^verbatim>\<open>JSON.parse\<close> belongs to the language, not to the repository: it is a parameter of the
  model, a function that returns the decoded value or \<open>None\<close> where \<^verbatim>\<open>JSON.parse\<close>
  throws its \<^verbatim>\<open>SyntaxError\<close>. The expression
  \<^verbatim>\<open>JSON.parse(text.replace(/```json\n?|\n?```/g, ''))\<close> that all four analysis functions
  share is \<open>parse_reply\<close>.
\<close>

type_synonym decoder = "string \<Rightarrow> json option"

definition parse_reply :: "decoder \<Rightarrow> string \<Rightarrow> json option" where
  "parse_reply JSON_parse text = JSON_parse (strip_fences text)"

section \<open>The model gateway\<close>

text \<open>
  \<^verbatim>\<open>model.generateContent(...)\<close> followed by \<^verbatim>\<open>response.text()\<close> is a call to an external
  service: the gateway is a parameter, giving for each prompt the reply text (\<open>Inr\<close>) or
  the error thrown (\<open>Inl\<close>). The transcription prompt goes with the audio read from the
  uploaded file, so it is identified by the file path (an error reading the file is thrown
  inside the same \<^verbatim>\<open>try\<close> and counts as an error of this call). Each analysis prompt is a
  fixed template around the transcription and is identified by its kind and the
  transcription; the chat prompt is the text the chat handler builds.
\<close>

datatype prompt =
    TranscriptionPrompt string
  | SummaryPrompt string
  | TasksPrompt string
  | ImprovementsPrompt string
  | FactCheckPrompt string
  | ChatPrompt string

type_synonym gateway = "prompt \<Rightarrow> error + string"

definition transcribeWithGemini :: "gateway \<Rightarrow> string \<Rightarrow> error + string" where
  "transcribeWithGemini gw filePath =
     (case gw (TranscriptionPrompt filePath) of
        Inr text \<Rightarrow> Inr text
      | Inl e \<Rightarrow> Inl (Error (''Failed to transcribe audio with Gemini: '' @ error_message e)))"

section \<open>The four analyses\<close>

subsection \<open>Summary\<close>

definition summary_fallback :: json where
  "summary_fallback = JObj
     [(''overview'', JStr ''Failed to parse summary''),
      (''keyPoints'', JArr []),
      (''decisions'', JArr []),
      (''insights'', JArr []),
      (''outcomes'', JArr []),
      (''nextSteps'', JArr [])]"

definition summary_error :: "error \<Rightarrow> json" where
  "summary_error e = JObj
     [(''error'', JStr ''Failed to generate summary''),
      (''message'', JStr (error_message e))]"

definition generateMeetingSummary :: "gateway \<Rightarrow> decoder \<Rightarrow> string \<Rightarrow> json" where
  "generateMeetingSummary gw JSON_parse transcription =
     (case gw (SummaryPrompt transcription) of
        Inr text \<Rightarrow>
          (case parse_reply JSON_parse text of
             Some data \<Rightarrow> data
           | None \<Rightarrow> summary_fallback)
      | Inl e \<Rightarrow> summary_error e)"

subsection \<open>Tasks\<close>

text \<open>
  \<^verbatim>\<open>data.tasks\<close> as \<^verbatim>\<open>.length\<close> and \<^verbatim>\<open>.filter(...)\<close> use it (lines 340 to 343). Reading
  \<^verbatim>\<open>tasks\<close> off \<^verbatim>\<open>null\<close>, or \<^verbatim>\<open>length\<close> off a missing or \<^verbatim>\<open>null\<close> \<^verbatim>\<open>tasks\<close>, throws;
  a \<^verbatim>\<open>tasks\<close> that is not an array has no function \<^verbatim>\<open>filter\<close>, and calling it throws.
\<close>

fun data_tasks :: "json \<Rightarrow> error + json list" where
  "data_tasks JNull = Inl (TypeError ''Cannot read properties of null (reading 'tasks')'')"
| "data_tasks data =
     (case get_prop data ''tasks'' of
        None \<Rightarrow> Inl (TypeError ''Cannot read properties of undefined (reading 'length')'')
      | Some JNull \<Rightarrow> Inl (TypeError ''Cannot read properties of null (reading 'length')'')
      | Some (JArr ts) \<Rightarrow> Inr ts
      | Some _ \<Rightarrow> Inl (TypeError ''data.tasks.filter is not a function''))"

text \<open>
  The four assignments that follow \<^verbatim>\<open>JSON.parse\<close>. The callbacks read \<^verbatim>\<open>t.priority\<close> and
  \<^verbatim>\<open>t.assignedTo\<close>, which throws on a \<^verbatim>\<open>null\<close> element; \<^verbatim>\<open>===\<close> and \<^verbatim>\<open>!==\<close> compare
  with a string, so only a string property can be equal.
\<close>

definition is_high :: "json \<Rightarrow> bool" where
  "is_high t = (get_prop t ''priority'' = Some (JStr ''high''))"

definition is_unassigned :: "json \<Rightarrow> bool" where
  "is_unassigned t = (get_prop t ''assignedTo'' = Some (JStr ''Unassigned''))"

definition count_tasks :: "json \<Rightarrow> error + json" where
  "count_tasks data =
     (case data_tasks data of
        Inl e \<Rightarrow> Inl e
      | Inr ts \<Rightarrow>
          if JNull \<in> set ts
          then Inl (TypeError ''Cannot read properties of null (reading 'priority')'')
          else
            let d1 = assign data ''totalTasks'' (JNum (int (length ts)));
                d2 = assign d1 ''highPriorityCount'' (JNum (int (length (filter is_high ts))));
                d3 = assign d2 ''assignedCount''
                       (JNum (int (length (filter (\<lambda>t. \<not> is_unassigned t) ts))));
                d4 = assign d3 ''unassignedCount''
                       (JNum (int (length (filter is_unassigned ts))))
            in Inr d4)"

definition tasks_fallback :: json where
  "tasks_fallback = JObj
     [(''tasks'', JArr []),
      (''followUpItems'', JArr []),
      (''totalTasks'', JNum 0),
      (''highPriorityCount'', JNum 0),
      (''assignedCount'', JNum 0),
      (''unassignedCount'', JNum 0)]"

definition tasks_error :: json where
  "tasks_error = JObj
     [(''error'', JStr ''Failed to extract tasks''),
      (''tasks'', JArr []),
      (''followUpItems'', JArr [])]"

definition extractTasks :: "gateway \<Rightarrow> decoder \<Rightarrow> string \<Rightarrow> json" where
  "extractTasks gw JSON_parse transcription =
     (case gw (TasksPrompt transcription) of
        Inr text \<Rightarrow>
          (case parse_reply JSON_parse text of
             Some data \<Rightarrow>
               (case count_tasks data of
                  Inr counted \<Rightarrow> counted
                | Inl e \<Rightarrow> tasks_fallback)
           | None \<Rightarrow> tasks_fallback)
      | Inl e \<Rightarrow> tasks_error)"

subsection \<open>Improvements\<close>

definition improvements_fallback :: json where
  "improvements_fallback = JObj
     [(''effectivenessScore'', JNum 0),
      (''scoreRationale'', JStr ''Unable to analyze''),
      (''strengths'', JArr []),
      (''improvements'', JObj []),
      (''recommendations'', JArr []),
      (''bestPractices'', JArr [])]"

definition improvements_error :: "error \<Rightarrow> json" where
  "improvements_error e = JObj
     [(''error'', JStr ''Failed to generate improvements''),
      (''message'', JStr (error_message e))]"

definition generateImprovements :: "gateway \<Rightarrow> decoder \<Rightarrow> string \<Rightarrow> json" where
  "generateImprovements gw JSON_parse transcription =
     (case gw (ImprovementsPrompt transcription) of
        Inr text \<Rightarrow>
          (case parse_reply JSON_parse text of
             Some data \<Rightarrow> data
           | None \<Rightarrow> improvements_fallback)
      | Inl e \<Rightarrow> improvements_error e)"

subsection \<open>Fact check\<close>

definition factCheck_fallback :: json where
  "factCheck_fallback = JObj
     [(''transcriptionQuality'',
         JObj [(''rating'', JStr ''unknown''), (''score'', JNum 0), (''issues'', JArr [])]),
      (''potentialErrors'', JArr []),
      (''factualClaims'', JArr []),
      (''inconsistencies'', JArr []),
      (''dataPoints'', JArr []),
      (''technicalTerms'', JArr []),
      (''recommendations'', JArr [])]"

definition factCheck_error :: "error \<Rightarrow> json" where
  "factCheck_error e = JObj
     [(''error'', JStr ''Failed to perform fact-check''),
      (''message'', JStr (error_message e))]"

definition factCheckTranscription :: "gateway \<Rightarrow> decoder \<Rightarrow> string \<Rightarrow> json" where
  "factCheckTranscription gw JSON_parse transcription =
     (case gw (FactCheckPrompt transcription) of
        Inr text \<Rightarrow>
          (case parse_reply JSON_parse text of
             Some data \<Rightarrow> data
           | None \<Rightarrow> factCheck_fallback)
      | Inl e \<Rightarrow> factCheck_error e)"

section \<open>The meeting store\<close>

text \<open>
  \<^verbatim>\<open>meetingData\<close> (lines 97 to 106): the four analyses are stored as the analysis
  functions returned them.
\<close>

record meeting =
  meeting_id :: string
  filename :: string
  timestamp :: string
  transcription :: string
  summary :: json
  tasks :: json
  improvements :: json
  factCheck :: json

text \<open>
  \<^verbatim>\<open>meetingDatabase\<close> is a JavaScript \<^verbatim>\<open>Map\<close> with string keys. A \<^verbatim>\<open>Map\<close> iterates in
  insertion order, and \<^verbatim>\<open>set\<close> on a key it holds replaces the value where the key stands:
  the store is the list of its entries in insertion order.
\<close>

type_synonym meetingDatabase = "(string \<times> meeting) list"

definition Map_set :: "meetingDatabase \<Rightarrow> string \<Rightarrow> meeting \<Rightarrow> meetingDatabase" where
  "Map_set db k m = AList.update k m db"

definition Map_get :: "meetingDatabase \<Rightarrow> string \<Rightarrow> meeting option" where
  "Map_get db k = map_of db k"

definition Map_values :: "meetingDatabase \<Rightarrow> meeting list" where
  "Map_values db = map snd db"

text \<open>
  \<^verbatim>\<open>meetingDatabase.has(x)\<close> for a JSON value \<open>x\<close> of a request body: the keys are strings,
  and no other value is the same as a string.
\<close>

fun Map_has :: "meetingDatabase \<Rightarrow> json option \<Rightarrow> bool" where
  "Map_has db (Some (JStr k)) = (map_of db k \<noteq> None)"
| "Map_has db _ = False"

section \<open>The handlers\<close>

record response =
  status :: nat
  body :: json

subsection \<open>POST /api/process-audio\<close>

text \<open>
  \<open>upload\<close> is \<^verbatim>\<open>req.file\<close> as the upload middleware leaves it; \<open>req_file\<close> is \<open>None\<close> when
  the request carries no file. The clock is read twice: \<open>now\<close> is the value of
  \<^verbatim>\<open>Date.now()\<close> at line 60, \<open>isoString\<close> the value of \<^verbatim>\<open>new Date().toISOString()\<close> at
  line 100. \<open>unlink\<close> is the outcome of removing the uploaded file on the success path
  (lines 111 to 113, after \<^verbatim>\<open>meetingDatabase.set\<close> and before \<^verbatim>\<open>res.json\<close>): \<open>None\<close> when the
  file is gone already or \<^verbatim>\<open>fs.unlink\<close> resolves, \<open>Some e\<close> when \<^verbatim>\<open>fs.unlink\<close> rejects with
  \<open>e\<close>, which the \<^verbatim>\<open>catch\<close> of the handler answers. The removal in the \<^verbatim>\<open>catch\<close> itself
  swallows its error (\<^verbatim>\<open>.catch(() => {})\<close>) and cannot fail. A local variable that shares
  its name with a field of \<open>meeting\<close> is written with a prime.
\<close>

record upload =
  originalname :: string
  path :: string
  filesize :: nat

record audio_request =
  req_file :: "upload option"
  now :: nat
  isoString :: string
  unlink :: "error option"

definition process_audio_failed :: "error \<Rightarrow> response" where
  "process_audio_failed e =
     \<lparr>status = 500,
      body = JObj [(''error'', JStr ''Failed to process audio file''),
                   (''details'', JStr (error_message e))]\<rparr>"

definition process_audio ::
  "gateway \<Rightarrow> decoder \<Rightarrow> audio_request \<Rightarrow> meetingDatabase \<Rightarrow> response \<times> meetingDatabase" where
  "process_audio gw JSON_parse req db =
     (case req_file req of
        None \<Rightarrow> (\<lparr>status = 400, body = JObj [(''error'', JStr ''No audio file uploaded'')]\<rparr>, db)
      | Some f \<Rightarrow>
          let meetingId = decimal (now req) in
          (case transcribeWithGemini gw (path f) of
             Inl e \<Rightarrow> (process_audio_failed e, db)
           | Inr transcription' \<Rightarrow>
               if transcription' = []
               then (process_audio_failed (Error ''Failed to transcribe audio''), db)
               else
                 let summary' = generateMeetingSummary gw JSON_parse transcription';
                     tasks' = extractTasks gw JSON_parse transcription';
                     improvements' = generateImprovements gw JSON_parse transcription';
                     factCheck' = factCheckTranscription gw JSON_parse transcription';
                     meetingData =
                       \<lparr>meeting_id = meetingId,
                        filename = originalname f,
                        timestamp = isoString req,
                        transcription = transcription',
                        summary = summary',
                        tasks = tasks',
                        improvements = improvements',
                        factCheck = factCheck'\<rparr>;
                     db' = Map_set db meetingId meetingData
                 in (case unlink req of
                       Some e \<Rightarrow> (process_audio_failed e, db')
                     | None \<Rightarrow>
                         (\<lparr>status = 200,
                           body = JObj
                             [(''success'', JBool True),
                              (''meetingId'', JStr meetingId),
                              (''transcription'', JStr transcription'),
                              (''summary'', summary'),
                              (''tasks'', tasks'),
                              (''improvements'', improvements'),
                              (''factCheck'', factCheck'),
                              (''filename'', JStr (originalname f)),
                              (''filesize'', JNum (int (filesize f))),
                              (''timestamp'', JStr (timestamp meetingData))]\<rparr>,
                          db'))))"

subsection \<open>POST /api/chat\<close>

text \<open>\<^verbatim>\<open>req.body\<close>: the two properties the handler reads, each possibly absent.\<close>

record chat_request =
  message :: "json option"
  meetingId :: "json option"

text \<open>
  The template literal of lines 155 to 162. The transcription is a string; the summary and
  the tasks are converted to strings, which can throw.
\<close>

definition context_block :: "meeting \<Rightarrow> error + string" where
  "context_block m =
     (case ToString (summary m) of
        Inl e \<Rightarrow> Inl e
      | Inr s \<Rightarrow>
          (case ToString (tasks m) of
             Inl e \<Rightarrow> Inl e
           | Inr t \<Rightarrow>
               Inr (''\<newline>        Context from the meeting:\<newline>        Transcription: ''
                    @ transcription m
                    @ ''\<newline>        Summary: '' @ s
                    @ ''\<newline>        Tasks: '' @ t
                    @ ''\<newline>        \<newline>        Based on this meeting context, please answer the following question:\<newline>      '')))"

definition chat_context :: "meetingDatabase \<Rightarrow> json option \<Rightarrow> error + string" where
  "chat_context db mid =
     (if truthy mid \<and> Map_has db mid then
        (case mid of
           Some (JStr k) \<Rightarrow>
             (case Map_get db k of Some m \<Rightarrow> context_block m | None \<Rightarrow> Inr [])
         | _ \<Rightarrow> Inr [])
      else Inr [])"

definition language_directive :: string where
  "language_directive = ''\<newline>\<newline>IMPORTANT: Respond in ENGLISH only.''"

text \<open>\<^verbatim>\<open>context + message + "..."\<close>: the prompt the chat handler sends.\<close>

definition chat_prompt :: "meetingDatabase \<Rightarrow> chat_request \<Rightarrow> error + string" where
  "chat_prompt db req =
     (case chat_context db (meetingId req) of
        Inl e \<Rightarrow> Inl e
      | Inr context \<Rightarrow>
          (case message req of
             None \<Rightarrow> Inr (context @ ''undefined'' @ language_directive)
           | Some v \<Rightarrow>
               (case ToString v of
                  Inl e \<Rightarrow> Inl e
                | Inr q \<Rightarrow> Inr (context @ q @ language_directive))))"

definition chat_failed :: "error \<Rightarrow> response" where
  "chat_failed e =
     \<lparr>status = 500,
      body = JObj [(''error'', JStr ''Failed to process chat message''),
                   (''details'', JStr (error_message e))]\<rparr>"

definition chat :: "gateway \<Rightarrow> chat_request \<Rightarrow> meetingDatabase \<Rightarrow> response" where
  "chat gw req db =
     (if \<not> truthy (message req)
      then \<lparr>status = 400, body = JObj [(''error'', JStr ''No message provided'')]\<rparr>
      else
        (case chat_prompt db req of
           Inl e \<Rightarrow> chat_failed e
         | Inr p \<Rightarrow>
             (case gw (ChatPrompt p) of
                Inl e \<Rightarrow> chat_failed e
              | Inr text \<Rightarrow>
                  \<lparr>status = 200,
                   body = JObj [(''success'', JBool True), (''response'', JStr text)]\<rparr>)))"

subsection \<open>GET /api/meetings\<close>

text \<open>
  The callback of \<^verbatim>\<open>map\<close> (lines 539 to 544). \<^verbatim>\<open>m.summary.substring(0, 200)\<close> is a call
  of a string method: on a summary that is a string it is the first 200 characters; a
  summary that is \<^verbatim>\<open>null\<close> has no properties and every other value has no function
  \<^verbatim>\<open>substring\<close>, so the call throws.
\<close>

definition meeting_view :: "meeting \<Rightarrow> error + json" where
  "meeting_view m =
     (case summary m of
        JStr s \<Rightarrow>
          Inr (JObj [(''id'', JStr (meeting_id m)),
                     (''filename'', JStr (filename m)),
                     (''timestamp'', JStr (timestamp m)),
                     (''summary'', JStr (take 200 s @ ''...''))])
      | JNull \<Rightarrow> Inl (TypeError ''Cannot read properties of null (reading 'substring')'')
      | _ \<Rightarrow> Inl (TypeError ''m.summary.substring is not a function''))"

text \<open>\<^verbatim>\<open>Array.prototype.map\<close> with a callback that can throw: the first exception ends it.\<close>

fun map_views :: "meeting list \<Rightarrow> error + json list" where
  "map_views [] = Inr []"
| "map_views (m # ms) =
     (case meeting_view m of
        Inl e \<Rightarrow> Inl e
      | Inr v \<Rightarrow> (case map_views ms of Inl e \<Rightarrow> Inl e | Inr vs \<Rightarrow> Inr (v # vs)))"

text \<open>
  The handler has no \<^verbatim>\<open>try\<close>: an exception leaves it (\<open>Inl\<close>), and the web framework
  answers the request with its own error response instead of the list.
\<close>

definition get_meetings :: "meetingDatabase \<Rightarrow> error + response" where
  "get_meetings db =
     (case map_views (Map_values db) of
        Inl e \<Rightarrow> Inl e
      | Inr meetings \<Rightarrow>
          Inr \<lparr>status = 200,
               body = JObj [(''success'', JBool True), (''meetings'', JArr (rev meetings))]\<rparr>)"

section \<open>Notions the properties are stated with\<close>

text \<open>A text holds a fence when three backquotes stand somewhere in it.\<close>

fun has_fence :: "string \<Rightarrow> bool" where
  "has_fence [] = False"
| "has_fence (c # cs) = (prefix ''```'' (c # cs) \<or> has_fence cs)"

text \<open>A model reply wrapped in the code fence of the specification.\<close>

definition fenced :: "string \<Rightarrow> string" where
  "fenced x = ''```json\<newline>'' @ x @ ''\<newline>```''"

text \<open>Reading a decimal numeral back, to show that \<open>decimal\<close> loses nothing.\<close>

definition digit_value :: "char \<Rightarrow> nat" where
  "digit_value c = of_char c - 48"

definition number_of :: "string \<Rightarrow> nat" where
  "number_of s = foldl (\<lambda>a c. 10 * a + digit_value c) 0 s"

text \<open>
  A counter of a task list: the number under the key, if there is one. The task list is
  consistent when its four counters are the ones recomputed from its \<^verbatim>\<open>tasks\<close>.
\<close>

definition counter_names :: "string list" where
  "counter_names = [''totalTasks'', ''highPriorityCount'', ''assignedCount'', ''unassignedCount'']"

definition counter :: "json \<Rightarrow> string \<Rightarrow> int option" where
  "counter d k = (case get_prop d k of Some (JNum n) \<Rightarrow> Some n | _ \<Rightarrow> None)"

definition counters_consistent :: "json \<Rightarrow> bool" where
  "counters_consistent d =
     (case get_prop d ''tasks'' of
        Some (JArr ts) \<Rightarrow>
          counter d ''totalTasks'' = Some (int (length ts)) \<and>
          counter d ''highPriorityCount'' = Some (int (length (filter is_high ts))) \<and>
          counter d ''assignedCount'' =
            Some (int (length (filter (\<lambda>t. \<not> is_unassigned t) ts))) \<and>
          (case (counter d ''assignedCount'', counter d ''unassignedCount'') of
             (Some a, Some u) \<Rightarrow> a + u = int (length ts)
           | _ \<Rightarrow> False)
      | _ \<Rightarrow> False)"

subsection \<open>Sample replies\<close>

text \<open>
  The examples below need values of \<^verbatim>\<open>JSON.parse\<close>. \<open>JSON_parse_sample\<close> gives the value
  of \<^verbatim>\<open>JSON.parse\<close> at the five texts that follow, and treats every other text as one that
  does not decode: it stands for \<^verbatim>\<open>JSON.parse\<close> at these texts and at texts that are not
  JSON, which is where the examples use it.
\<close>

definition text_empty_object :: string where
  "text_empty_object = ''{}''"

definition text_backquotes :: string where
  "text_backquotes = ''{\"a\":\"```\"}''"

definition text_backquotes_removed :: string where
  "text_backquotes_removed = ''{\"a\":\"\"}''"

definition text_overview :: string where
  "text_overview = ''{\"overview\":\"Ship by Friday\"}''"

definition text_two_tasks :: string where
  "text_two_tasks =
     ''{\"tasks\":[{\"priority\":\"high\",\"assignedTo\":\"Unassigned\"},{\"assignedTo\":\"Bob\"}],\"totalTasks\":7}''"

definition JSON_parse_sample :: decoder where
  "JSON_parse_sample s =
     (if s = text_empty_object then Some (JObj [])
      else if s = text_backquotes then Some (JObj [(''a'', JStr ''```'')])
      else if s = text_backquotes_removed then Some (JObj [(''a'', JStr [])])
      else if s = text_overview then Some (JObj [(''overview'', JStr ''Ship by Friday'')])
      else if s = text_two_tasks then
        Some (JObj
          [(''tasks'', JArr
              [JObj [(''priority'', JStr ''high''), (''assignedTo'', JStr ''Unassigned'')],
               JObj [(''assignedTo'', JStr ''Bob'')]]),
           (''totalTasks'', JNum 7)])
      else None)"

subsection \<open>The analysis kinds\<close>

text \<open>
  The four analysis functions differ in their prompt, their fallback and their error
  object only (and \<open>extractTasks\<close> in its counters). A property of every kind is stated
  once, over the kind.
\<close>

datatype kind = Summary | Tasks | Improvements | FactCheck

fun kind_prompt :: "kind \<Rightarrow> string \<Rightarrow> prompt" where
  "kind_prompt Summary t = SummaryPrompt t"
| "kind_prompt Tasks t = TasksPrompt t"
| "kind_prompt Improvements t = ImprovementsPrompt t"
| "kind_prompt FactCheck t = FactCheckPrompt t"

fun analysis :: "kind \<Rightarrow> gateway \<Rightarrow> decoder \<Rightarrow> string \<Rightarrow> json" where
  "analysis Summary = generateMeetingSummary"
| "analysis Tasks = extractTasks"
| "analysis Improvements = generateImprovements"
| "analysis FactCheck = factCheckTranscription"

fun fallback :: "kind \<Rightarrow> json" where
  "fallback Summary = summary_fallback"
| "fallback Tasks = tasks_fallback"
| "fallback Improvements = improvements_fallback"
| "fallback FactCheck = factCheck_fallback"

fun error_object :: "kind \<Rightarrow> error \<Rightarrow> json" where
  "error_object Summary e = summary_error e"
| "error_object Tasks e = tasks_error"
| "error_object Improvements e = improvements_error e"
| "error_object FactCheck e = factCheck_error e"

fun stored :: "kind \<Rightarrow> meeting \<Rightarrow> json" where
  "stored Summary m = summary m"
| "stored Tasks m = tasks m"
| "stored Improvements m = improvements m"
| "stored FactCheck m = factCheck m"

subsection \<open>Sample gateways and requests\<close>

text \<open>
  \<open>gateway_sample\<close> transcribes, answers the summary prompt with prose, the tasks prompt
  with a fenced task list whose own counter is wrong, fails on the improvements prompt
  and answers the fact check with an empty object. \<open>gateway_prose\<close> answers every
  analysis prompt with prose, \<open>gateway_silent\<close> returns the empty text, \<open>gateway_down\<close>
  fails on every call, \<open>gateway_empty_object\<close> answers \<^verbatim>\<open>{}\<close>.
\<close>

definition sample_transcription :: string where
  "sample_transcription = ''Speaker 1: We ship by Friday.''"

definition gateway_sample :: gateway where
  "gateway_sample p =
     (case p of
        TranscriptionPrompt f \<Rightarrow> Inr sample_transcription
      | SummaryPrompt t \<Rightarrow> Inr ''Here is the summary you asked for.''
      | TasksPrompt t \<Rightarrow> Inr (fenced text_two_tasks)
      | ImprovementsPrompt t \<Rightarrow> Inl (Error ''503 Service Unavailable'')
      | FactCheckPrompt t \<Rightarrow> Inr text_empty_object
      | ChatPrompt q \<Rightarrow> Inr ''They decided to ship by Friday.'')"

definition gateway_prose :: gateway where
  "gateway_prose p =
     (case p of
        TranscriptionPrompt f \<Rightarrow> Inr sample_transcription
      | _ \<Rightarrow> Inr ''Here is the analysis you asked for.'')"

definition gateway_silent :: gateway where
  "gateway_silent p = Inr []"

definition gateway_down :: gateway where
  "gateway_down p = Inl (Error ''fetch failed'')"

definition gateway_empty_object :: gateway where
  "gateway_empty_object p =
     (case p of
        TranscriptionPrompt f \<Rightarrow> Inr sample_transcription
      | _ \<Rightarrow> Inr text_empty_object)"

definition sample_upload :: upload where
  "sample_upload =
     \<lparr>originalname = ''standup.wav'', path = ''uploads/1700000000000-standup.wav'',
      filesize = 2097152\<rparr>"

definition sample_request :: audio_request where
  "sample_request =
     \<lparr>req_file = Some sample_upload, now = 1700000000000,
      isoString = ''2023-11-14T22:13:20.000Z'', unlink = None\<rparr>"

definition later_request :: audio_request where
  "later_request =
     \<lparr>req_file = Some (sample_upload\<lparr>originalname := ''retro.wav''\<rparr>), now = 1700000000000,
      isoString = ''2023-11-14T22:13:20.000Z'', unlink = None\<rparr>"

text \<open>The sample request on a host where the uploaded file cannot be removed.\<close>

definition locked_request :: audio_request where
  "locked_request =
     sample_request\<lparr>unlink := Some (Error ''EPERM: operation not permitted, unlink'')\<rparr>"

section \<open>Lemmas\<close>

subsection \<open>Stripping the fences\<close>

lemma match_fence_None_iff:
  "match_fence s = None \<longleftrightarrow> \<not> prefix ''```'' s \<and> \<not> prefix ''\<newline>```'' s"
  by (auto simp: match_fence_def prefix_def)

lemma prefix_fence_tail:
  assumes "x \<noteq> []" and "prefix ''```'' (x @ ''\<newline>```'')"
  shows "prefix ''```'' x"
proof (cases x)
  case Nil
  with assms show ?thesis by simp
next
  case c1: (Cons a x1)
  show ?thesis
  proof (cases x1)
    case Nil
    with c1 assms show ?thesis by simp
  next
    case c2: (Cons b x2)
    show ?thesis
    proof (cases x2)
      case Nil
      with c1 c2 assms show ?thesis by simp
    next
      case (Cons c x3)
      with c1 c2 assms show ?thesis by auto
    qed
  qed
qed

lemma has_fence_prefix: "prefix ''```'' x \<Longrightarrow> has_fence x"
  by (cases x) auto

lemma strip_fences_tail:
  "\<not> has_fence x \<Longrightarrow> strip_fences (x @ ''\<newline>```'') = x"
proof (induction x)
  case Nil
  show ?case by code_simp
next
  case (Cons c cs)
  have nf: "\<not> prefix ''```'' (c # cs)" and ncs: "\<not> has_fence cs"
    using Cons.prems by auto
  have a: "\<not> prefix ''```'' ((c # cs) @ ''\<newline>```'')"
    using nf prefix_fence_tail[of "c # cs"] by blast
  have b: "\<not> prefix ''\<newline>```'' ((c # cs) @ ''\<newline>```'')"
  proof
    assume p: "prefix ''\<newline>```'' ((c # cs) @ ''\<newline>```'')"
    then have q: "prefix ''```'' (cs @ ''\<newline>```'')" by auto
    show False
    proof (cases "cs = []")
      case True
      with q show False by simp
    next
      case False
      with q have "prefix ''```'' cs" using prefix_fence_tail by blast
      then show False using ncs has_fence_prefix by blast
    qed
  qed
  have "match_fence ((c # cs) @ ''\<newline>```'') = None"
    using a b by (simp only: match_fence_None_iff) simp
  then have "strip_fences ((c # cs) @ ''\<newline>```'') = c # strip_fences (cs @ ''\<newline>```'')"
    by (subst strip_fences.simps) simp
  with Cons.IH[OF ncs] show ?case by simp
qed

lemma strip_fences_wrapped:
  "\<not> has_fence x \<Longrightarrow> strip_fences (''```json\<newline>'' @ x @ ''\<newline>```'') = x"
proof -
  assume nf: "\<not> has_fence x"
  have "match_fence (''```json\<newline>'' @ x @ ''\<newline>```'') = Some 8"
    by (simp add: match_fence_def)
  then have "strip_fences (''```json\<newline>'' @ x @ ''\<newline>```'') = strip_fences (x @ ''\<newline>```'')"
    by (subst strip_fences.simps) simp
  with strip_fences_tail[OF nf] show ?thesis by simp
qed

subsection \<open>Decimal numerals\<close>

lemma digit_value_digit: "d < 10 \<Longrightarrow> digit_value (digit d) = d"
proof -
  assume "d < 10"
  then have "d \<in> {0, 1, 2, 3, 4, 5, 6, 7, 8, 9}" by auto
  then show ?thesis
    by (auto simp: digit_def digit_value_def)
qed

lemma number_of_snoc: "number_of (s @ [c]) = 10 * number_of s + digit_value c"
  by (simp add: number_of_def)

lemma number_of_decimal: "number_of (decimal n) = n"
proof (induction n rule: decimal.induct)
  case (1 n)
  show ?case
  proof (cases "n < 10")
    case True
    then show ?thesis
      by (subst decimal.simps) (simp add: number_of_def digit_value_digit)
  next
    case False
    then have "number_of (decimal n) = 10 * number_of (decimal (n div 10)) + digit_value (digit (n mod 10))"
      by (subst decimal.simps) (simp add: number_of_snoc)
    also have "\<dots> = 10 * (n div 10) + n mod 10"
      using "1.IH"[OF False] by (simp add: digit_value_digit)
    finally show ?thesis by simp
  qed
qed

lemma decimal_eq_iff: "decimal a = decimal b \<longleftrightarrow> a = b"
  by (metis number_of_decimal)

subsection \<open>Counters\<close>

lemma count_tasks_consistent:
  assumes "count_tasks data = Inr d"
  shows "counters_consistent d"
proof -
  from assms obtain ts where ts: "data_tasks data = Inr ts"
    by (auto simp: count_tasks_def split: sum.splits)
  then obtain kvs where data: "data = JObj kvs" and tk: "map_of kvs ''tasks'' = Some (JArr ts)"
    by (cases data) (auto split: option.splits json.splits)
  from assms ts data have d: "d = JObj
      (AList.update ''unassignedCount'' (JNum (int (length (filter is_unassigned ts))))
        (AList.update ''assignedCount'' (JNum (int (length (filter (\<lambda>t. \<not> is_unassigned t) ts))))
          (AList.update ''highPriorityCount'' (JNum (int (length (filter is_high ts))))
            (AList.update ''totalTasks'' (JNum (int (length ts))) kvs))))"
    by (auto simp: count_tasks_def Let_def split: if_splits)
  have part: "length (filter (\<lambda>t. \<not> is_unassigned t) ts) + length (filter is_unassigned ts) = length ts"
    using sum_length_filter_compl[of is_unassigned ts] by simp
  show ?thesis
    unfolding counters_consistent_def counter_def d
    using tk part by (simp add: update_conv')
qed

subsection \<open>The pipeline\<close>

lemma process_audio_stored:
  assumes "req_file req = Some f" and "gw (TranscriptionPrompt (path f)) = Inr t" and "t \<noteq> []"
  shows "snd (process_audio gw P req db) =
      Map_set db (decimal (now req))
        \<lparr>meeting_id = decimal (now req),
         filename = originalname f,
         timestamp = isoString req,
         transcription = t,
         summary = generateMeetingSummary gw P t,
         tasks = extractTasks gw P t,
         improvements = generateImprovements gw P t,
         factCheck = factCheckTranscription gw P t\<rparr>"
  using assms
  by (simp add: process_audio_def transcribeWithGemini_def Let_def split: option.splits)

lemma process_audio_success:
  assumes "req_file req = Some f" and "gw (TranscriptionPrompt (path f)) = Inr t" and "t \<noteq> []"
    and "unlink req = None"
  shows "process_audio gw P req db =
     (\<lparr>status = 200,
       body = JObj
         [(''success'', JBool True),
          (''meetingId'', JStr (decimal (now req))),
          (''transcription'', JStr t),
          (''summary'', generateMeetingSummary gw P t),
          (''tasks'', extractTasks gw P t),
          (''improvements'', generateImprovements gw P t),
          (''factCheck'', factCheckTranscription gw P t),
          (''filename'', JStr (originalname f)),
          (''filesize'', JNum (int (filesize f))),
          (''timestamp'', JStr (isoString req))]\<rparr>,
      Map_set db (decimal (now req))
        \<lparr>meeting_id = decimal (now req),
         filename = originalname f,
         timestamp = isoString req,
         transcription = t,
         summary = generateMeetingSummary gw P t,
         tasks = extractTasks gw P t,
         improvements = generateImprovements gw P t,
         factCheck = factCheckTranscription gw P t\<rparr>)"
  using assms by (simp add: process_audio_def transcribeWithGemini_def Let_def)

lemma process_audio_unlink_rejected:
  assumes "req_file req = Some f" and "gw (TranscriptionPrompt (path f)) = Inr t" and "t \<noteq> []"
    and "unlink req = Some e"
  shows "fst (process_audio gw P req db) = process_audio_failed e"
  using assms by (simp add: process_audio_def transcribeWithGemini_def Let_def)

lemma process_audio_empty:
  assumes "req_file req = Some f" and "gw (TranscriptionPrompt (path f)) = Inr []"
  shows "process_audio gw P req db = (process_audio_failed (Error ''Failed to transcribe audio''), db)"
  using assms by (simp add: process_audio_def transcribeWithGemini_def Let_def)

lemma process_audio_thrown:
  assumes "req_file req = Some f" and "gw (TranscriptionPrompt (path f)) = Inl e"
  shows "process_audio gw P req db =
    (process_audio_failed (Error (''Failed to transcribe audio with Gemini: '' @ error_message e)), db)"
  using assms by (simp add: process_audio_def transcribeWithGemini_def Let_def)

lemma analysis_fallback:
  assumes "gw (kind_prompt k t) = Inr text" and "parse_reply P text = None"
  shows "analysis k gw P t = fallback k"
  using assms
  by (cases k)
    (simp_all add: generateMeetingSummary_def extractTasks_def generateImprovements_def
      factCheckTranscription_def)

lemma analysis_error:
  assumes "gw (kind_prompt k t) = Inl e"
  shows "analysis k gw P t = error_object k e"
  using assms
  by (cases k)
    (simp_all add: generateMeetingSummary_def extractTasks_def generateImprovements_def
      factCheckTranscription_def)

lemma analysis_decoded:
  assumes "gw (kind_prompt k t) = Inr text" and "parse_reply P text = Some v"
  shows "analysis k gw P t =
     (if k = Tasks then (case count_tasks v of Inr c \<Rightarrow> c | Inl e \<Rightarrow> tasks_fallback) else v)"
  using assms
  by (cases k)
    (simp_all add: generateMeetingSummary_def extractTasks_def generateImprovements_def
      factCheckTranscription_def)

lemma kind_prompt_inject: "kind_prompt k t = kind_prompt k' t' \<longleftrightarrow> k = k' \<and> t = t'"
  by (cases k; cases k') simp_all

lemma analysis_own_reply:
  assumes "gw' (kind_prompt k t) = gw (kind_prompt k t)"
  shows "analysis k gw' P t = analysis k gw P t"
  using assms
  by (cases k)
    (simp_all add: generateMeetingSummary_def extractTasks_def generateImprovements_def
      factCheckTranscription_def)

lemma analysis_other_reply:
  assumes "k' \<noteq> k"
  shows "analysis k' (gw(kind_prompt k t := r)) P t = analysis k' gw P t"
  using assms by (intro analysis_own_reply) (simp add: kind_prompt_inject)

lemma stored_Map_set:
  "stored k \<lparr>meeting_id = i, filename = fn, timestamp = ts, transcription = t,
     summary = analysis Summary gw P t, tasks = analysis Tasks gw P t,
     improvements = analysis Improvements gw P t, factCheck = analysis FactCheck gw P t\<rparr>
   = analysis k gw P t"
  by (cases k) simp_all

lemma sample_summary_undecoded:
  "parse_reply JSON_parse_sample ''Here is the summary you asked for.'' = None"
  unfolding parse_reply_def by code_simp

lemma strip_two_tasks: "strip_fences (fenced text_two_tasks) = text_two_tasks"
  unfolding fenced_def by (rule strip_fences_wrapped) code_simp

lemma count_tasks_no_array:
  assumes "\<forall>ts. get_prop v ''tasks'' \<noteq> Some (JArr ts)"
  shows "\<exists>e. count_tasks v = Inl e"
proof -
  have "\<exists>e. data_tasks v = Inl e"
    using assms by (cases v) (auto split: option.splits json.splits)
  then show ?thesis by (auto simp: count_tasks_def)
qed

subsection \<open>The sample upload\<close>

lemma sample_clock: "decimal (now sample_request) = ''1700000000000''"
  by (simp add: sample_request_def decimal.simps digit_def)

lemma sample_hyps:
  "req_file sample_request = Some sample_upload"
  "gateway_sample (TranscriptionPrompt (path sample_upload)) = Inr sample_transcription"
  "sample_transcription \<noteq> []"
  by (simp_all add: sample_request_def gateway_sample_def sample_transcription_def)

lemma sample_analyses:
  "generateMeetingSummary gateway_sample JSON_parse_sample sample_transcription = summary_fallback"
  "generateImprovements gateway_sample JSON_parse_sample sample_transcription =
      improvements_error (Error ''503 Service Unavailable'')"
  by (simp_all add: generateMeetingSummary_def generateImprovements_def gateway_sample_def
      sample_summary_undecoded)

lemma sample_store:
  "snd (process_audio gateway_sample JSON_parse_sample sample_request []) =
      [(''1700000000000'',
        \<lparr>meeting_id = ''1700000000000'',
         filename = ''standup.wav'',
         timestamp = ''2023-11-14T22:13:20.000Z'',
         transcription = sample_transcription,
         summary = summary_fallback,
         tasks = extractTasks gateway_sample JSON_parse_sample sample_transcription,
         improvements = improvements_error (Error ''503 Service Unavailable''),
         factCheck = factCheckTranscription gateway_sample JSON_parse_sample sample_transcription\<rparr>)]"
  unfolding process_audio_stored[where gw = gateway_sample and P = JSON_parse_sample
      and db = "[]", OF sample_hyps] sample_clock sample_analyses
  by (simp add: Map_set_def sample_request_def sample_upload_def)

lemma sample_tasks:
  "extractTasks gateway_sample JSON_parse_sample sample_transcription = JObj
          [(''tasks'', JArr
              [JObj [(''priority'', JStr ''high''), (''assignedTo'', JStr ''Unassigned'')],
               JObj [(''assignedTo'', JStr ''Bob'')]]),
           (''totalTasks'', JNum 2), (''highPriorityCount'', JNum 1),
           (''assignedCount'', JNum 1), (''unassignedCount'', JNum 1)]"
proof -
  have g: "gateway_sample (TasksPrompt sample_transcription) = Inr (fenced text_two_tasks)"
    by (simp add: gateway_sample_def)
  have p: "parse_reply JSON_parse_sample (fenced text_two_tasks) =
     Some (JObj
          [(''tasks'', JArr
              [JObj [(''priority'', JStr ''high''), (''assignedTo'', JStr ''Unassigned'')],
               JObj [(''assignedTo'', JStr ''Bob'')]]),
           (''totalTasks'', JNum 7)])"
    unfolding parse_reply_def strip_two_tasks by code_simp
  show ?thesis
    by (simp add: extractTasks_def g p count_tasks_def is_high_def is_unassigned_def)
qed

lemma Map_set_twice:
  "Map_get (Map_set (Map_set db k m) k m') k = Some m' \<and>
   map fst (Map_set (Map_set db k m) k m') = map fst (Map_set db k m)"
  by (simp add: Map_get_def Map_set_def update_conv' update_keys)

lemma Map_set_new_key: "k \<notin> fst ` set db \<Longrightarrow> Map_set db k m = db @ [(k, m)]"
  unfolding Map_set_def by (induction db) auto

subsection \<open>The chat and the meeting list\<close>

text \<open>
  What the chat handler does apart from the context block: a meeting id that the store
  does not hold leaves the question alone in front of the language directive, and the
  reply of the gateway is returned as it is. The meeting list throws as soon as one stored
  summary is not a string; when none makes it throw, it returns the views of the stored
  meetings, latest entry first.
\<close>

lemma chat_prompt_without_context:
  assumes "\<not> Map_has db (meetingId req)" and "message req = Some (JStr q)"
  shows "chat_prompt db req = Inr (q @ language_directive)"
  using assms by (simp add: chat_prompt_def chat_context_def)

lemma chat_returns_raw_text:
  assumes "truthy (message req)" and "chat_prompt db req = Inr p" and "gw (ChatPrompt p) = Inr reply"
  shows "chat gw req db =
    \<lparr>status = 200, body = JObj [(''success'', JBool True), (''response'', JStr reply)]\<rparr>"
  using assms by (simp add: chat_def)

lemma map_views_ids:
  "map_views ms = Inr vs \<Longrightarrow>
   map (\<lambda>v. get_prop v ''id'') vs = map (\<lambda>m. Some (JStr (meeting_id m))) ms"
proof (induction ms arbitrary: vs)
  case Nil
  then show ?case by simp
next
  case (Cons m ms)
  then show ?case
    by (auto simp: meeting_view_def split: sum.splits json.splits)
qed

lemma map_views_needs_text:
  assumes "m \<in> set ms" and "\<forall>s. summary m \<noteq> JStr s"
  shows "\<exists>e. map_views ms = Inl e"
  using assms
proof (induction ms)
  case Nil
  then show ?case by simp
next
  case (Cons a ms)
  show ?case
  proof (cases "meeting_view a")
    case (Inl e)
    then show ?thesis by simp
  next
    case (Inr v)
    then have "\<exists>s. summary a = JStr s"
      by (auto simp: meeting_view_def split: json.splits)
    with Cons.prems have "m \<in> set ms" by auto
    from Cons.IH[OF this Cons.prems(2)] Inr show ?thesis by auto
  qed
qed

lemma get_meetings_needs_text:
  assumes "(k, m) \<in> set db" and "\<forall>s. summary m \<noteq> JStr s"
  shows "\<exists>e. get_meetings db = Inl e"
proof -
  from assms(1) have "m \<in> set (Map_values db)"
    by (force simp: Map_values_def)
  from map_views_needs_text[OF this assms(2)] show ?thesis
    by (auto simp: get_meetings_def)
qed

lemma get_meetings_reversed:
  assumes "get_meetings db = Inr r"
  shows "\<exists>vs. body r = JObj [(''success'', JBool True), (''meetings'', JArr (rev vs))] \<and>
    map (\<lambda>v. get_prop v ''id'') vs = map (\<lambda>(k, m). Some (JStr (meeting_id m))) db"
proof -
  from assms obtain vs where v: "map_views (Map_values db) = Inr vs"
    and r: "r = \<lparr>status = 200,
               body = JObj [(''success'', JBool True), (''meetings'', JArr (rev vs))]\<rparr>"
    by (auto simp: get_meetings_def split: sum.splits)
  from map_views_ids[OF v]
  have "map (\<lambda>v. get_prop v ''id'') vs = map (\<lambda>(k, m). Some (JStr (meeting_id m))) db"
    by (simp add: Map_values_def case_prod_unfold comp_def)
  with r show ?thesis by simp
qed

subsection \<open>Counting keeps the reply\<close>

lemma count_tasks_keeps:
  assumes "count_tasks v = Inr d" and "key \<notin> set counter_names"
  shows "get_prop d key = get_prop v key"
proof -
  from assms(1) obtain ts where ts: "data_tasks v = Inr ts"
    by (auto simp: count_tasks_def split: sum.splits)
  then obtain kvs where v: "v = JObj kvs"
    by (cases v) (auto split: option.splits json.splits)
  from assms(1) ts v obtain a b c d' where
    "d = JObj (AList.update ''unassignedCount'' d'
          (AList.update ''assignedCount'' c
            (AList.update ''highPriorityCount'' b
              (AList.update ''totalTasks'' a kvs))))"
    by (auto simp: count_tasks_def Let_def split: if_splits)
  with assms(2) v show ?thesis
    by (simp add: update_conv' counter_names_def)
qed

lemma count_tasks_counts:
  assumes "get_prop v ''tasks'' = Some (JArr ts)" and "JNull \<notin> set ts"
  shows "\<exists>d. count_tasks v = Inr d \<and>
    get_prop d ''totalTasks'' = Some (JNum (int (length ts))) \<and>
    get_prop d ''highPriorityCount'' = Some (JNum (int (length (filter is_high ts)))) \<and>
    get_prop d ''assignedCount'' =
      Some (JNum (int (length (filter (\<lambda>t. \<not> is_unassigned t) ts)))) \<and>
    get_prop d ''unassignedCount'' = Some (JNum (int (length (filter is_unassigned ts))))"
proof -
  from assms(1) obtain kvs where v: "v = JObj kvs"
    by (cases v) simp_all
  from assms(1) v have "data_tasks v = Inr ts"
    by simp
  with assms(2) v show ?thesis
    by (simp add: count_tasks_def Let_def update_conv')
qed

lemma count_tasks_null_element:
  assumes "get_prop v ''tasks'' = Some (JArr ts)" and "JNull \<in> set ts"
  shows "\<exists>e. count_tasks v = Inl e"
proof -
  from assms(1) have "data_tasks v = Inr ts"
    by (cases v) simp_all
  with assms(2) show ?thesis
    by (simp add: count_tasks_def)
qed

subsection \<open>The round trip through the fence\<close>

text \<open>
  For a text in which no three backquotes stand in a row, parsing the fenced text gives
  what decoding the text gives.
\<close>

lemma fenced_round_trip:
  assumes "\<not> has_fence x"
  shows "parse_reply P (fenced x) = P x"
  unfolding parse_reply_def fenced_def strip_fences_wrapped[OF assms] by (rule refl)

subsection \<open>Failures of the analysis calls\<close>

text \<open>
  For a request with a file whose transcription is not empty: the Meeting is stored under
  the request's id whatever the four analysis calls do, each stored analysis is the result
  of its own function, a gateway error in the call of one kind makes that analysis the
  error object of the kind, and no analysis depends on the reply to another kind's
  prompt. The response has status 200 exactly when the uploaded file is removed without
  an error.
\<close>

lemma analysis_failures_caught:
  assumes "req_file req = Some f" and "gw (TranscriptionPrompt (path f)) = Inr t" and "t \<noteq> []"
  shows "(status (fst (process_audio gw P req db)) = 200) = (unlink req = None) \<and>
    (\<exists>m. snd (process_audio gw P req db) = Map_set db (decimal (now req)) m \<and>
       Map_get (snd (process_audio gw P req db)) (decimal (now req)) = Some m \<and>
       (\<forall>k. stored k m = analysis k gw P t \<and>
          (\<forall>e. gw (kind_prompt k t) = Inl e \<longrightarrow> stored k m = error_object k e) \<and>
          (\<forall>k' r. k' \<noteq> k \<longrightarrow>
             analysis k' (gw(kind_prompt k t := r)) P t = analysis k' gw P t)))"
proof -
  have one: "(status (fst (process_audio gw P req db)) = 200) = (unlink req = None)"
  proof (cases "unlink req")
    case None
    with process_audio_success[where gw = gw and P = P and db = db, OF assms None]
    show ?thesis by simp
  next
    case (Some e)
    with process_audio_unlink_rejected[where gw = gw and P = P and db = db, OF assms Some]
    show ?thesis by (simp add: process_audio_failed_def)
  qed
  let ?m = "\<lparr>meeting_id = decimal (now req), filename = originalname f,
      timestamp = isoString req, transcription = t,
      summary = analysis Summary gw P t, tasks = analysis Tasks gw P t,
      improvements = analysis Improvements gw P t, factCheck = analysis FactCheck gw P t\<rparr>"
  have st: "stored k ?m = analysis k gw P t" for k
    by (rule stored_Map_set)
  have m1: "snd (process_audio gw P req db) = Map_set db (decimal (now req)) ?m"
    using process_audio_stored[where gw = gw and P = P and db = db, OF assms] by simp
  have m2: "Map_get (snd (process_audio gw P req db)) (decimal (now req)) = Some ?m"
    unfolding m1 by (simp add: Map_get_def Map_set_def update_conv')
  have m3: "\<forall>k. stored k ?m = analysis k gw P t \<and>
          (\<forall>e. gw (kind_prompt k t) = Inl e \<longrightarrow> stored k ?m = error_object k e) \<and>
          (\<forall>k' r. k' \<noteq> k \<longrightarrow>
             analysis k' (gw(kind_prompt k t := r)) P t = analysis k' gw P t)"
    using st analysis_error analysis_other_reply by metis
  from m1 m2 m3 have "\<exists>m. snd (process_audio gw P req db) = Map_set db (decimal (now req)) m \<and>
       Map_get (snd (process_audio gw P req db)) (decimal (now req)) = Some m \<and>
       (\<forall>k. stored k m = analysis k gw P t \<and>
          (\<forall>e. gw (kind_prompt k t) = Inl e \<longrightarrow> stored k m = error_object k e) \<and>
          (\<forall>k' r. k' \<noteq> k \<longrightarrow>
             analysis k' (gw(kind_prompt k t := r)) P t = analysis k' gw P t))"
    by blast
  with one show ?thesis by blast
qed

section \<open>The claims\<close>

text \<open>
  C1 fails on the code. A summary reply that is not JSON makes \<open>generateMeetingSummary\<close>
  return its fallback, and the fallback has no \<^verbatim>\<open>participants\<close> list (and no
  \<^verbatim>\<open>duration\<close>): a list of the summary is absent, not empty. In the same way the
  improvements fallback maps no category to a list. The tasks and fact-check fallbacks
  carry every field of their shape, with empty lists, zero counters, rating \<^verbatim>\<open>unknown\<close>
  and score 0. (That a reply which does not decode gives the fallback of its kind, and
  that no analysis depends on the reply to another kind's prompt, are
  \<open>analysis_fallback\<close> and \<open>analysis_other_reply\<close>.)
\<close>

theorem summary_fallback_lacks_participants:
  "gateway_prose (SummaryPrompt sample_transcription) = Inr ''Here is the analysis you asked for.'' \<and>
   parse_reply JSON_parse_sample ''Here is the analysis you asked for.'' = None \<and>
   generateMeetingSummary gateway_prose JSON_parse_sample sample_transcription =
     JObj [(''overview'', JStr ''Failed to parse summary''),
           (''keyPoints'', JArr []),
           (''decisions'', JArr []),
           (''insights'', JArr []),
           (''outcomes'', JArr []),
           (''nextSteps'', JArr [])] \<and>
   get_prop (generateMeetingSummary gateway_prose JSON_parse_sample sample_transcription)
     ''participants'' = None \<and>
   generateImprovements gateway_prose JSON_parse_sample sample_transcription =
     JObj [(''effectivenessScore'', JNum 0),
           (''scoreRationale'', JStr ''Unable to analyze''),
           (''strengths'', JArr []),
           (''improvements'', JObj []),
           (''recommendations'', JArr []),
           (''bestPractices'', JArr [])] \<and>
   extractTasks gateway_prose JSON_parse_sample sample_transcription =
     JObj [(''tasks'', JArr []),
           (''followUpItems'', JArr []),
           (''totalTasks'', JNum 0),
           (''highPriorityCount'', JNum 0),
           (''assignedCount'', JNum 0),
           (''unassignedCount'', JNum 0)] \<and>
   factCheckTranscription gateway_prose JSON_parse_sample sample_transcription =
     JObj [(''transcriptionQuality'',
              JObj [(''rating'', JStr ''unknown''), (''score'', JNum 0), (''issues'', JArr [])]),
           (''potentialErrors'', JArr []),
           (''factualClaims'', JArr []),
           (''inconsistencies'', JArr []),
           (''dataPoints'', JArr []),
           (''technicalTerms'', JArr []),
           (''recommendations'', JArr [])]"
proof -
  have p: "parse_reply JSON_parse_sample ''Here is the analysis you asked for.'' = None"
    unfolding parse_reply_def by code_simp
  show ?thesis
    by (simp add: p gateway_prose_def generateMeetingSummary_def generateImprovements_def
        extractTasks_def factCheckTranscription_def summary_fallback_def
        improvements_fallback_def tasks_fallback_def factCheck_fallback_def)
qed

text \<open>
  C2, as the code has it. When the gateway answers the tasks prompt with a text, whatever
  the text, the task list \<open>extractTasks\<close> returns is consistent: \<^verbatim>\<open>totalTasks\<close> is the
  length of \<^verbatim>\<open>tasks\<close>, \<^verbatim>\<open>highPriorityCount\<close> the number of tasks whose priority is
  \<^verbatim>\<open>high\<close>, \<^verbatim>\<open>assignedCount\<close> the number of tasks not assigned to \<^verbatim>\<open>Unassigned\<close>, and
  \<^verbatim>\<open>assignedCount + unassignedCount\<close> is \<^verbatim>\<open>totalTasks\<close>. The counters of the model's
  reply play no part: they are overwritten.
\<close>

theorem task_counters_recomputed:
  assumes "gw (TasksPrompt t) = Inr reply"
  shows "counters_consistent (extractTasks gw P t)"
proof -
  have fb: "counters_consistent tasks_fallback"
    by (simp add: tasks_fallback_def counters_consistent_def counter_def)
  show ?thesis
  proof (cases "parse_reply P reply")
    case None
    with assms fb show ?thesis by (simp add: extractTasks_def)
  next
    case (Some data)
    show ?thesis
    proof (cases "count_tasks data")
      case (Inl e)
      with assms Some fb show ?thesis by (simp add: extractTasks_def)
    next
      case r: (Inr d)
      with assms Some have "extractTasks gw P t = d" by (simp add: extractTasks_def)
      with count_tasks_consistent[OF r] show ?thesis by simp
    qed
  qed
qed

text \<open>
  The sample reply announces 7 tasks and lists 2: the counters are 2, 1, 1 and 1.
\<close>

theorem task_counters_recomputed_witness:
  "gateway_sample (TasksPrompt sample_transcription) = Inr (fenced text_two_tasks) \<and>
   counters_consistent (extractTasks gateway_sample JSON_parse_sample sample_transcription) \<and>
   map (counter (extractTasks gateway_sample JSON_parse_sample sample_transcription))
     [''totalTasks'', ''highPriorityCount'', ''assignedCount'', ''unassignedCount''] =
     [Some 2, Some 1, Some 1, Some 1]"
proof -
  have g: "gateway_sample (TasksPrompt sample_transcription) = Inr (fenced text_two_tasks)"
    by (simp add: gateway_sample_def)
  from task_counters_recomputed[where gw = gateway_sample and P = JSON_parse_sample, OF g]
  have "counters_consistent (extractTasks gateway_sample JSON_parse_sample sample_transcription)" .
  then show ?thesis using g by (simp add: sample_tasks counter_def)
qed

text \<open>
  C2 as stated, with the gateway errors it names, fails: after a gateway error the
  object that stands for the task list has an empty \<^verbatim>\<open>tasks\<close> list and no
  \<^verbatim>\<open>totalTasks\<close> to equal its length.
\<close>

theorem gateway_error_tasks_counterexample:
  "gateway_down (TasksPrompt sample_transcription) = Inl (Error ''fetch failed'') \<and>
   get_prop (extractTasks gateway_down JSON_parse_sample sample_transcription) ''tasks'' =
     Some (JArr []) \<and>
   get_prop (extractTasks gateway_down JSON_parse_sample sample_transcription) ''totalTasks'' =
     None \<and>
   \<not> counters_consistent (extractTasks gateway_down JSON_parse_sample sample_transcription)"
  by (simp add: extractTasks_def gateway_down_def tasks_error_def counters_consistent_def
      counter_def)

text \<open>
  C3 fails on the code. The reply is a valid JSON object, with three backquotes inside a
  string, wrapped in the fence. The replacement is meant to take the wrapper off, but it
  is global and not anchored: it removes the backquotes inside the string too, and the
  parsed value is not the value the object decodes to. (For a text without three
  backquotes in a row the round trip holds: \<open>fenced_round_trip\<close>.)
\<close>

theorem fence_stripping_reaches_into_strings:
  "fenced text_backquotes = ''```json\<newline>{\"a\":\"```\"}\<newline>```'' \<and>
   strip_fences (fenced text_backquotes) = ''{\"a\":\"\"}'' \<and>
   JSON_parse_sample text_backquotes = Some (JObj [(''a'', JStr ''```'')]) \<and>
   parse_reply JSON_parse_sample (fenced text_backquotes) = Some (JObj [(''a'', JStr [])]) \<and>
   parse_reply JSON_parse_sample (fenced text_backquotes) \<noteq> JSON_parse_sample text_backquotes"
proof -
  have a: "JSON_parse_sample text_backquotes = Some (JObj [(''a'', JStr ''```'')])"
    by code_simp
  have s: "strip_fences (fenced text_backquotes) = text_backquotes_removed"
    by code_simp
  have b: "parse_reply JSON_parse_sample (fenced text_backquotes) = Some (JObj [(''a'', JStr [])])"
    unfolding parse_reply_def s by code_simp
  have f: "fenced text_backquotes = ''```json\<newline>{\"a\":\"```\"}\<newline>```''"
    by (simp add: fenced_def text_backquotes_def)
  have s': "strip_fences (fenced text_backquotes) = ''{\"a\":\"\"}''"
    unfolding s by (simp add: text_backquotes_removed_def)
  show ?thesis using a b f s' by simp
qed

text \<open>
  C4. When the transcription call returns the empty text, the request is answered with
  status 500 and the meeting store is left as it was.
\<close>

theorem empty_transcription_aborts:
  assumes "req_file req = Some f" and "gw (TranscriptionPrompt (path f)) = Inr []"
  shows "status (fst (process_audio gw P req db)) = 500 \<and>
    body (fst (process_audio gw P req db)) =
      JObj [(''error'', JStr ''Failed to process audio file''),
            (''details'', JStr ''Failed to transcribe audio'')] \<and>
    snd (process_audio gw P req db) = db"
  using process_audio_empty[where gw = gw and P = P and db = db, OF assms]
  by (simp add: process_audio_failed_def)

text \<open>
  A gateway that returns the empty text: status 500, and the empty store stays empty.
\<close>

theorem empty_transcription_aborts_witness:
  "req_file sample_request = Some sample_upload \<and>
   gateway_silent (TranscriptionPrompt (path sample_upload)) = Inr [] \<and>
   status (fst (process_audio gateway_silent JSON_parse_sample sample_request [])) = 500 \<and>
   snd (process_audio gateway_silent JSON_parse_sample sample_request []) = []"
proof -
  have h1: "req_file sample_request = Some sample_upload"
    by (simp add: sample_request_def)
  have h2: "gateway_silent (TranscriptionPrompt (path sample_upload)) = Inr []"
    by (simp add: gateway_silent_def)
  from empty_transcription_aborts[where gw = gateway_silent and P = JSON_parse_sample
      and db = "[]", OF h1 h2] h1 h2
  show ?thesis by simp
qed

text \<open>
  C5 fails on the code. After one successful upload on an empty store the meeting list
  does not return the entry: the stored summary is an object (here the parse fallback),
  and reading the first 200 characters of it throws. The order itself is the reverse
  insertion order whenever the list is returned (\<open>get_meetings_reversed\<close>).
\<close>

theorem get_meetings_throws_after_upload:
  "get_meetings (snd (process_audio gateway_sample JSON_parse_sample sample_request [])) =
     Inl (TypeError ''m.summary.substring is not a function'')"
  unfolding sample_store
  by (simp add: get_meetings_def Map_values_def meeting_view_def summary_fallback_def)

text \<open>
  C6 fails on the code. The entry of a meeting is built as the claim says when the
  stored summary is a string. The summary an upload stores is an object: for the parse
  fallback, for the error object and for every other object the list throws instead of
  returning.
\<close>

theorem meeting_view_needs_text_summary:
  "meeting_view (m\<lparr>summary := JStr s\<rparr>) =
     Inr (JObj [(''id'', JStr (meeting_id m)),
                (''filename'', JStr (filename m)),
                (''timestamp'', JStr (timestamp m)),
                (''summary'', JStr (take 200 s @ ''...''))]) \<and>
   get_meetings [(k, m\<lparr>summary := summary_fallback\<rparr>)] =
     Inl (TypeError ''m.summary.substring is not a function'') \<and>
   get_meetings [(k, m\<lparr>summary := summary_error e\<rparr>)] =
     Inl (TypeError ''m.summary.substring is not a function'') \<and>
   get_meetings [(k, m\<lparr>summary := JObj kvs\<rparr>)] =
     Inl (TypeError ''m.summary.substring is not a function'')"
  by (simp add: get_meetings_def Map_values_def meeting_view_def summary_fallback_def
      summary_error_def)

text \<open>
  C7, as the code has it. A reply that decodes after fence stripping is returned as
  decoded, without validation, by the summary, improvements and fact-check analyses. The
  tasks analysis does not return the decoded value as it is. When the value has an array
  without \<^verbatim>\<open>null\<close> elements under \<^verbatim>\<open>tasks\<close>, the result has every property of the value
  other than the four counters, unchanged (the tasks among them), and the four counters
  recomputed from the array. When the array holds a \<^verbatim>\<open>null\<close>, or when there is no array
  under \<^verbatim>\<open>tasks\<close>, the result is the parse fallback: empty lists and zero counters. In
  each case the Meeting stored under the request's id holds what the analysis returned.
\<close>

theorem decoded_reply_returned:
  assumes "req_file req = Some f" and "gw (TranscriptionPrompt (path f)) = Inr t" and "t \<noteq> []"
    and "gw (kind_prompt k t) = Inr reply" and "parse_reply P reply = Some v"
  shows "(k \<noteq> Tasks \<longrightarrow> analysis k gw P t = v) \<and>
    (\<forall>ts. k = Tasks \<and> get_prop v ''tasks'' = Some (JArr ts) \<and> JNull \<notin> set ts \<longrightarrow>
       (\<forall>key. key \<notin> set counter_names \<longrightarrow>
          get_prop (analysis k gw P t) key = get_prop v key) \<and>
       get_prop (analysis k gw P t) ''tasks'' = Some (JArr ts) \<and>
       get_prop (analysis k gw P t) ''totalTasks'' = Some (JNum (int (length ts))) \<and>
       get_prop (analysis k gw P t) ''highPriorityCount'' =
         Some (JNum (int (length (filter is_high ts)))) \<and>
       get_prop (analysis k gw P t) ''assignedCount'' =
         Some (JNum (int (length (filter (\<lambda>t. \<not> is_unassigned t) ts)))) \<and>
       get_prop (analysis k gw P t) ''unassignedCount'' =
         Some (JNum (int (length (filter is_unassigned ts))))) \<and>
    (k = Tasks \<and>
       ((\<exists>ts. get_prop v ''tasks'' = Some (JArr ts) \<and> JNull \<in> set ts) \<or>
        (\<forall>ts. get_prop v ''tasks'' \<noteq> Some (JArr ts))) \<longrightarrow>
       analysis k gw P t =
         JObj [(''tasks'', JArr []),
               (''followUpItems'', JArr []),
               (''totalTasks'', JNum 0),
               (''highPriorityCount'', JNum 0),
               (''assignedCount'', JNum 0),
               (''unassignedCount'', JNum 0)]) \<and>
    map_option (stored k) (Map_get (snd (process_audio gw P req db)) (decimal (now req))) =
      Some (analysis k gw P t)"
proof -
  note dec = analysis_decoded[where gw = gw and P = P, OF assms(4,5)]
  have a: "k \<noteq> Tasks \<longrightarrow> analysis k gw P t = v"
    using dec by simp
  have b: "(\<forall>key. key \<notin> set counter_names \<longrightarrow>
          get_prop (analysis k gw P t) key = get_prop v key) \<and>
       get_prop (analysis k gw P t) ''tasks'' = Some (JArr ts) \<and>
       get_prop (analysis k gw P t) ''totalTasks'' = Some (JNum (int (length ts))) \<and>
       get_prop (analysis k gw P t) ''highPriorityCount'' =
         Some (JNum (int (length (filter is_high ts)))) \<and>
       get_prop (analysis k gw P t) ''assignedCount'' =
         Some (JNum (int (length (filter (\<lambda>t. \<not> is_unassigned t) ts)))) \<and>
       get_prop (analysis k gw P t) ''unassignedCount'' =
         Some (JNum (int (length (filter is_unassigned ts))))"
    if k: "k = Tasks" and g: "get_prop v ''tasks'' = Some (JArr ts)" and n: "JNull \<notin> set ts"
    for ts
  proof -
    from count_tasks_counts[OF g n] obtain d where d: "count_tasks v = Inr d"
      and c: "get_prop d ''totalTasks'' = Some (JNum (int (length ts)))"
        "get_prop d ''highPriorityCount'' = Some (JNum (int (length (filter is_high ts))))"
        "get_prop d ''assignedCount'' =
           Some (JNum (int (length (filter (\<lambda>t. \<not> is_unassigned t) ts))))"
        "get_prop d ''unassignedCount'' = Some (JNum (int (length (filter is_unassigned ts))))"
      by blast
    from dec k d have r: "analysis k gw P t = d" by simp
    have keep: "\<forall>key. key \<notin> set counter_names \<longrightarrow> get_prop d key = get_prop v key"
      using count_tasks_keeps[OF d] by blast
    have "''tasks'' \<notin> set counter_names"
      by (simp add: counter_names_def)
    with keep g have "get_prop d ''tasks'' = Some (JArr ts)" by simp
    with keep c show ?thesis unfolding r by blast
  qed
  have c: "analysis k gw P t =
         JObj [(''tasks'', JArr []),
               (''followUpItems'', JArr []),
               (''totalTasks'', JNum 0),
               (''highPriorityCount'', JNum 0),
               (''assignedCount'', JNum 0),
               (''unassignedCount'', JNum 0)]"
    if k: "k = Tasks"
      and n: "(\<exists>ts. get_prop v ''tasks'' = Some (JArr ts) \<and> JNull \<in> set ts) \<or>
        (\<forall>ts. get_prop v ''tasks'' \<noteq> Some (JArr ts))"
  proof -
    from n have "\<exists>e. count_tasks v = Inl e"
      using count_tasks_null_element count_tasks_no_array by blast
    then obtain e where "count_tasks v = Inl e" ..
    with dec k show ?thesis by (simp add: tasks_fallback_def)
  qed
  let ?m = "\<lparr>meeting_id = decimal (now req), filename = originalname f,
      timestamp = isoString req, transcription = t,
      summary = analysis Summary gw P t, tasks = analysis Tasks gw P t,
      improvements = analysis Improvements gw P t, factCheck = analysis FactCheck gw P t\<rparr>"
  have "snd (process_audio gw P req db) = Map_set db (decimal (now req)) ?m"
    using process_audio_stored[where gw = gw and P = P and db = db, OF assms(1-3)] by simp
  then have "Map_get (snd (process_audio gw P req db)) (decimal (now req)) = Some ?m"
    by (simp add: Map_get_def Map_set_def update_conv')
  moreover have "stored k ?m = analysis k gw P t"
    by (rule stored_Map_set)
  ultimately have d: "map_option (stored k)
      (Map_get (snd (process_audio gw P req db)) (decimal (now req))) = Some (analysis k gw P t)"
    by simp
  show ?thesis using a b c d by blast
qed

text \<open>
  The sample tasks reply: the two tasks of the reply are kept, the reply's own
  \<^verbatim>\<open>totalTasks\<close> of 7 is overwritten with 2, and the Meeting stores the result.
\<close>

theorem decoded_reply_returned_witness:
  "req_file sample_request = Some sample_upload \<and>
   gateway_sample (TranscriptionPrompt (path sample_upload)) = Inr sample_transcription \<and>
   sample_transcription \<noteq> [] \<and>
   gateway_sample (kind_prompt Tasks sample_transcription) = Inr (fenced text_two_tasks) \<and>
   parse_reply JSON_parse_sample (fenced text_two_tasks) =
     Some (JObj
       [(''tasks'', JArr
           [JObj [(''priority'', JStr ''high''), (''assignedTo'', JStr ''Unassigned'')],
            JObj [(''assignedTo'', JStr ''Bob'')]]),
        (''totalTasks'', JNum 7)]) \<and>
   get_prop (analysis Tasks gateway_sample JSON_parse_sample sample_transcription) ''tasks'' =
     Some (JArr
       [JObj [(''priority'', JStr ''high''), (''assignedTo'', JStr ''Unassigned'')],
        JObj [(''assignedTo'', JStr ''Bob'')]]) \<and>
   get_prop (analysis Tasks gateway_sample JSON_parse_sample sample_transcription)
     ''totalTasks'' = Some (JNum 2) \<and>
   map_option (stored Tasks)
     (Map_get (snd (process_audio gateway_sample JSON_parse_sample sample_request []))
        ''1700000000000'') =
     Some (analysis Tasks gateway_sample JSON_parse_sample sample_transcription)"
proof -
  let ?ts = "[JObj [(''priority'', JStr ''high''), (''assignedTo'', JStr ''Unassigned'')],
            JObj [(''assignedTo'', JStr ''Bob'')]]"
  let ?v = "JObj [(''tasks'', JArr ?ts), (''totalTasks'', JNum 7)]"
  note h = sample_hyps
  have h4: "gateway_sample (kind_prompt Tasks sample_transcription) = Inr (fenced text_two_tasks)"
    by (simp add: gateway_sample_def)
  have h5: "parse_reply JSON_parse_sample (fenced text_two_tasks) = Some ?v"
    unfolding parse_reply_def strip_two_tasks by code_simp
  note th = decoded_reply_returned[where gw = gateway_sample and P = JSON_parse_sample
      and k = Tasks and db = "[]", OF h h4 h5]
  have g: "get_prop ?v ''tasks'' = Some (JArr ?ts)" and n: "JNull \<notin> set ?ts"
    by simp_all
  from th g n
  have a: "get_prop (analysis Tasks gateway_sample JSON_parse_sample sample_transcription)
      ''tasks'' = Some (JArr ?ts)"
    by blast
  from th g n
  have "get_prop (analysis Tasks gateway_sample JSON_parse_sample sample_transcription)
      ''totalTasks'' = Some (JNum (int (length ?ts)))"
    by blast
  then have b: "get_prop (analysis Tasks gateway_sample JSON_parse_sample sample_transcription)
      ''totalTasks'' = Some (JNum 2)"
    by simp
  from th
  have c: "map_option (stored Tasks)
     (Map_get (snd (process_audio gateway_sample JSON_parse_sample sample_request []))
        ''1700000000000'') =
     Some (analysis Tasks gateway_sample JSON_parse_sample sample_transcription)"
    unfolding sample_clock by blast
  show ?thesis using h h4 h5 a b c by blast
qed

text \<open>
  C7 as stated fails on its own example: a tasks reply \<^verbatim>\<open>{}\<close> decodes, has no
  \<^verbatim>\<open>tasks\<close> array, and is replaced by the fallback.
\<close>

theorem tasks_without_array_counterexample:
  "gateway_empty_object (TasksPrompt sample_transcription) = Inr text_empty_object \<and>
   parse_reply JSON_parse_sample text_empty_object = Some (JObj []) \<and>
   extractTasks gateway_empty_object JSON_parse_sample sample_transcription = tasks_fallback \<and>
   extractTasks gateway_empty_object JSON_parse_sample sample_transcription \<noteq> JObj []"
proof -
  have g: "gateway_empty_object (TasksPrompt sample_transcription) = Inr text_empty_object"
    by (simp add: gateway_empty_object_def)
  have p: "parse_reply JSON_parse_sample text_empty_object = Some (JObj [])"
    unfolding parse_reply_def by code_simp
  have e: "extractTasks gateway_empty_object JSON_parse_sample sample_transcription = tasks_fallback"
    by (simp add: extractTasks_def g p count_tasks_def)
  show ?thesis using g p e by (simp add: tasks_fallback_def)
qed

text \<open>
  C8 fails on the code. For a meeting id the store holds, the context block carries the
  transcription, but the summary and the task list are objects, and the template prints
  each of them as \<^verbatim>\<open>[object Object]\<close>: nothing of the summary or of the tasks reaches the
  prompt. (Without a stored meeting the question goes alone, and the reply is returned as
  it is: \<open>chat_prompt_without_context\<close>, \<open>chat_returns_raw_text\<close>.)
\<close>

theorem chat_context_prints_object:
  "chat_prompt (snd (process_audio gateway_sample JSON_parse_sample sample_request []))
     \<lparr>message = Some (JStr ''What was decided?''), meetingId = Some (JStr ''1700000000000'')\<rparr> =
   Inr ''\<newline>        Context from the meeting:\<newline>        Transcription: Speaker 1: We ship by Friday.\<newline>        Summary: [object Object]\<newline>        Tasks: [object Object]\<newline>        \<newline>        Based on this meeting context, please answer the following question:\<newline>      What was decided?\<newline>\<newline>IMPORTANT: Respond in ENGLISH only.''"
  unfolding sample_store sample_tasks
  by (simp add: chat_prompt_def chat_context_def Map_get_def context_block_def
      summary_fallback_def sample_transcription_def language_directive_def)

text \<open>
  C9 fails on the code. The sample upload on a host where the uploaded file cannot be
  removed: the transcription succeeds, the analyses run and the Meeting is stored, and
  then the removal of the file, which the success path does not guard, throws; the
  handler answers 500. A failure other than the transcription's is fatal to the request.
  (What the claim says of the analysis calls holds: \<open>analysis_failures_caught\<close>.)
\<close>

theorem unlink_rejection_fails_stored_upload:
  "req_file locked_request = Some sample_upload \<and>
   gateway_sample (TranscriptionPrompt (path sample_upload)) = Inr sample_transcription \<and>
   unlink locked_request = Some (Error ''EPERM: operation not permitted, unlink'') \<and>
   fst (process_audio gateway_sample JSON_parse_sample locked_request []) =
     \<lparr>status = 500,
      body = JObj [(''error'', JStr ''Failed to process audio file''),
                   (''details'', JStr ''EPERM: operation not permitted, unlink'')]\<rparr> \<and>
   map fst (snd (process_audio gateway_sample JSON_parse_sample locked_request [])) =
     [''1700000000000''] \<and>
   map_option transcription
     (Map_get (snd (process_audio gateway_sample JSON_parse_sample locked_request []))
        ''1700000000000'') = Some sample_transcription"
proof -
  have h1: "req_file locked_request = Some sample_upload"
    by (simp add: locked_request_def sample_request_def)
  note h2 = sample_hyps(2)
  note h3 = sample_hyps(3)
  have h4: "unlink locked_request = Some (Error ''EPERM: operation not permitted, unlink'')"
    by (simp add: locked_request_def)
  have d: "decimal (now locked_request) = ''1700000000000''"
    using sample_clock by (simp add: locked_request_def)
  have a: "fst (process_audio gateway_sample JSON_parse_sample locked_request []) =
     \<lparr>status = 500,
      body = JObj [(''error'', JStr ''Failed to process audio file''),
                   (''details'', JStr ''EPERM: operation not permitted, unlink'')]\<rparr>"
    using process_audio_unlink_rejected[where gw = gateway_sample and P = JSON_parse_sample
        and db = "[]", OF h1 h2 h3 h4]
    by (simp add: process_audio_failed_def)
  note st = process_audio_stored[where gw = gateway_sample and P = JSON_parse_sample
        and db = "[]", OF h1 h2 h3]
  have b: "map fst (snd (process_audio gateway_sample JSON_parse_sample locked_request [])) =
     [''1700000000000'']"
    unfolding st d by (simp add: Map_set_def)
  have c: "map_option transcription
     (Map_get (snd (process_audio gateway_sample JSON_parse_sample locked_request []))
        ''1700000000000'') = Some sample_transcription"
    unfolding st d by (simp add: Map_set_def Map_get_def)
  show ?thesis using h1 h2 h4 a b c by blast
qed

text \<open>
  C10. The id of a request is the decimal numeral of the clock value read at the start
  of the handler: it is the key and id of the stored Meeting, and the \<^verbatim>\<open>meetingId\<close> of
  the response (when removing the uploaded file throws, the response is the error
  response instead). Two ids are equal exactly when the clock values are. Storing under a
  key the store holds replaces the Meeting and adds no entry; so when a second upload
  reads the same clock value as a first, the store holds one Meeting under that id, the
  second.
\<close>

theorem meeting_id_from_clock:
  assumes "req_file req1 = Some f1" and "gw1 (TranscriptionPrompt (path f1)) = Inr t1"
    and "t1 \<noteq> []"
    and "req_file req2 = Some f2" and "gw2 (TranscriptionPrompt (path f2)) = Inr t2"
    and "t2 \<noteq> []"
  shows "(case unlink req1 of
       None \<Rightarrow>
         get_prop (body (fst (process_audio gw1 P req1 db))) ''meetingId'' =
           Some (JStr (decimal (now req1)))
     | Some e \<Rightarrow> fst (process_audio gw1 P req1 db) = process_audio_failed e) \<and>
    (\<exists>m1. snd (process_audio gw1 P req1 db) = Map_set db (decimal (now req1)) m1 \<and>
       meeting_id m1 = decimal (now req1)) \<and>
    (decimal (now req1) = decimal (now req2)) = (now req1 = now req2) \<and>
    (\<forall>k m m'. Map_get (Map_set (Map_set db k m) k m') k = Some m' \<and>
       map fst (Map_set (Map_set db k m) k m') = map fst (Map_set db k m)) \<and>
    (now req1 = now req2 \<longrightarrow>
       map fst (snd (process_audio gw2 P req2 (snd (process_audio gw1 P req1 db)))) =
         map fst (snd (process_audio gw1 P req1 db)) \<and>
       (\<exists>m2. Map_get (snd (process_audio gw2 P req2 (snd (process_audio gw1 P req1 db))))
               (decimal (now req1)) = Some m2 \<and>
          filename m2 = originalname f2 \<and> transcription m2 = t2 \<and>
          (\<forall>k. stored k m2 = analysis k gw2 P t2)))"
proof -
  let ?db1 = "snd (process_audio gw1 P req1 db)"
  let ?m1 = "\<lparr>meeting_id = decimal (now req1), filename = originalname f1,
      timestamp = isoString req1, transcription = t1,
      summary = analysis Summary gw1 P t1, tasks = analysis Tasks gw1 P t1,
      improvements = analysis Improvements gw1 P t1, factCheck = analysis FactCheck gw1 P t1\<rparr>"
  let ?m2 = "\<lparr>meeting_id = decimal (now req2), filename = originalname f2,
      timestamp = isoString req2, transcription = t2,
      summary = analysis Summary gw2 P t2, tasks = analysis Tasks gw2 P t2,
      improvements = analysis Improvements gw2 P t2, factCheck = analysis FactCheck gw2 P t2\<rparr>"
  note run1 = process_audio_stored[where gw = gw1 and P = P and db = db, OF assms(1-3)]
  note run2 = process_audio_stored[where gw = gw2 and P = P and db = ?db1, OF assms(4-6)]
  have a: "(case unlink req1 of
       None \<Rightarrow>
         get_prop (body (fst (process_audio gw1 P req1 db))) ''meetingId'' =
           Some (JStr (decimal (now req1)))
     | Some e \<Rightarrow> fst (process_audio gw1 P req1 db) = process_audio_failed e)"
  proof (cases "unlink req1")
    case None
    with process_audio_success[where gw = gw1 and P = P and db = db, OF assms(1-3) None]
    show ?thesis by simp
  next
    case (Some e)
    with process_audio_unlink_rejected[where gw = gw1 and P = P and db = db, OF assms(1-3) Some]
    show ?thesis by simp
  qed
  have s1: "?db1 = Map_set db (decimal (now req1)) ?m1"
    by (simp add: run1)
  have b: "\<exists>m1. ?db1 = Map_set db (decimal (now req1)) m1 \<and> meeting_id m1 = decimal (now req1)"
    using s1 by (intro exI[of _ ?m1]) simp
  have c: "(decimal (now req1) = decimal (now req2)) = (now req1 = now req2)"
    by (rule decimal_eq_iff)
  have d: "\<forall>k m m'. Map_get (Map_set (Map_set db k m) k m') k = Some m' \<and>
       map fst (Map_set (Map_set db k m) k m') = map fst (Map_set db k m)"
    using Map_set_twice by blast
  have s2: "snd (process_audio gw2 P req2 ?db1) = Map_set ?db1 (decimal (now req2)) ?m2"
    by (simp add: run2)
  have e: "map fst (snd (process_audio gw2 P req2 ?db1)) = map fst ?db1 \<and>
       (\<exists>m2. Map_get (snd (process_audio gw2 P req2 ?db1)) (decimal (now req1)) = Some m2 \<and>
          filename m2 = originalname f2 \<and> transcription m2 = t2 \<and>
          (\<forall>k. stored k m2 = analysis k gw2 P t2))"
    if same: "now req1 = now req2"
  proof -
    have k: "map fst (snd (process_audio gw2 P req2 ?db1)) = map fst ?db1"
      unfolding s2 unfolding s1 same using Map_set_twice by blast
    have g: "Map_get (snd (process_audio gw2 P req2 ?db1)) (decimal (now req1)) = Some ?m2"
      unfolding s2 same by (simp add: Map_get_def Map_set_def update_conv')
    have st: "\<forall>k. stored k ?m2 = analysis k gw2 P t2"
      using stored_Map_set by blast
    from g st have "\<exists>m2. Map_get (snd (process_audio gw2 P req2 ?db1)) (decimal (now req1)) = Some m2 \<and>
          filename m2 = originalname f2 \<and> transcription m2 = t2 \<and>
          (\<forall>k. stored k m2 = analysis k gw2 P t2)"
      by (intro exI[of _ ?m2]) simp
    with k show ?thesis by blast
  qed
  show ?thesis using a b c d e by blast
qed

text \<open>
  Two uploads in the same millisecond: one key, and the file name is the later one's.
\<close>

theorem meeting_id_from_clock_witness:
  "req_file sample_request = Some sample_upload \<and>
   gateway_sample (TranscriptionPrompt (path sample_upload)) = Inr sample_transcription \<and>
   sample_transcription \<noteq> [] \<and>
   req_file later_request = Some (sample_upload\<lparr>originalname := ''retro.wav''\<rparr>) \<and>
   gateway_sample (TranscriptionPrompt (path (sample_upload\<lparr>originalname := ''retro.wav''\<rparr>))) =
     Inr sample_transcription \<and>
   now sample_request = now later_request \<and>
   map fst (snd (process_audio gateway_sample JSON_parse_sample later_request
     (snd (process_audio gateway_sample JSON_parse_sample sample_request [])))) =
     [''1700000000000''] \<and>
   map_option filename (Map_get (snd (process_audio gateway_sample JSON_parse_sample later_request
     (snd (process_audio gateway_sample JSON_parse_sample sample_request [])))) ''1700000000000'') =
     Some ''retro.wav''"
proof -
  note h = sample_hyps
  have h4: "req_file later_request = Some (sample_upload\<lparr>originalname := ''retro.wav''\<rparr>)"
    by (simp add: later_request_def)
  have h5: "gateway_sample (TranscriptionPrompt (path (sample_upload\<lparr>originalname := ''retro.wav''\<rparr>))) =
     Inr sample_transcription"
    by (simp add: gateway_sample_def)
  have same: "now sample_request = now later_request"
    by (simp add: sample_request_def later_request_def)
  note th = meeting_id_from_clock[where ?gw1.0 = gateway_sample and ?gw2.0 = gateway_sample
      and P = JSON_parse_sample and db = "[]", OF h h4 h5 h(3)]
  from th same
  have k: "map fst (snd (process_audio gateway_sample JSON_parse_sample later_request
     (snd (process_audio gateway_sample JSON_parse_sample sample_request [])))) =
     map fst (snd (process_audio gateway_sample JSON_parse_sample sample_request []))"
    by blast
  from th same obtain m2 where
    "Map_get (snd (process_audio gateway_sample JSON_parse_sample later_request
       (snd (process_audio gateway_sample JSON_parse_sample sample_request []))))
       (decimal (now sample_request)) = Some m2"
    and "filename m2 = originalname (sample_upload\<lparr>originalname := ''retro.wav''\<rparr>)"
    by blast
  then have g: "map_option filename (Map_get (snd (process_audio gateway_sample JSON_parse_sample
     later_request (snd (process_audio gateway_sample JSON_parse_sample sample_request []))))
     ''1700000000000'') = Some ''retro.wav''"
    by (simp add: sample_clock)
  from k have k': "map fst (snd (process_audio gateway_sample JSON_parse_sample later_request
     (snd (process_audio gateway_sample JSON_parse_sample sample_request [])))) =
     [''1700000000000'']"
    by (simp add: sample_store)
  show ?thesis using h h4 h5 same k' g by blast
qed

end
